theory Spec2Isabelle
  imports Main "HOL-Library.Word"
begin

unbundle bit_operations_syntax

section \<open>JavaScript values\<close>

text \<open>
  The decoder and the encoder work on the JavaScript values that the \<^verbatim>\<open>cbor\<close> package and
  \<^verbatim>\<open>JSON.parse\<close> produce. The datatype below holds the kinds of value the sources
  distinguish: primitives, byte strings (\<^verbatim>\<open>Buffer\<close>, a \<^verbatim>\<open>Uint8Array\<close>), arrays, plain
  objects (an ordered list of properties), \<^verbatim>\<open>Map\<close> instances (a CBOR map with a key
  that is not a string) and \<^verbatim>\<open>cbor.Tagged\<close> instances (properties \<^verbatim>\<open>tag\<close>, \<^verbatim>\<open>value\<close>,
  \<^verbatim>\<open>err\<close>). Numbers are restricted to integers, a \<^verbatim>\<open>BigInt\<close> being a value of its
  own type; strings are lists of 8-bit characters.
\<close>

type_synonym byte = "8 word"

datatype jsval =
    JUndefined
  | JNull
  | JBool bool
  | JNumber int
  | JBigInt int
  | JString string
  | JBuffer "byte list"
  | JArray "jsval list"
  | JObject "(string \<times> jsval) list"
  | JMap "(jsval \<times> jsval) list"
  | JTagged int jsval

datatype jstype = T_undefined | T_object | T_boolean | T_number | T_bigint | T_string

text \<open>\<^verbatim>\<open>typeof v\<close>; \<^verbatim>\<open>typeof null\<close> is \<^verbatim>\<open>'object'\<close>.\<close>

fun typeof :: "jsval \<Rightarrow> jstype" where
  "typeof JUndefined = T_undefined"
| "typeof JNull = T_object"
| "typeof (JBool _) = T_boolean"
| "typeof (JNumber _) = T_number"
| "typeof (JBigInt _) = T_bigint"
| "typeof (JString _) = T_string"
| "typeof (JBuffer _) = T_object"
| "typeof (JArray _) = T_object"
| "typeof (JObject _) = T_object"
| "typeof (JMap _) = T_object"
| "typeof (JTagged _ _) = T_object"

text \<open>The truth value of \<^verbatim>\<open>v\<close> in a condition (\<^verbatim>\<open>if (v)\<close>, \<^verbatim>\<open>v && ...\<close>, \<^verbatim>\<open>v || ...\<close>).\<close>

fun truthy :: "jsval \<Rightarrow> bool" where
  "truthy JUndefined = False"
| "truthy JNull = False"
| "truthy (JBool b) = b"
| "truthy (JNumber n) = (n \<noteq> 0)"
| "truthy (JBigInt n) = (n \<noteq> 0)"
| "truthy (JString s) = (s \<noteq> [])"
| "truthy (JBuffer _) = True"
| "truthy (JArray _) = True"
| "truthy (JObject _) = True"
| "truthy (JMap _) = True"
| "truthy (JTagged _ _) = True"

text \<open>
  \<^verbatim>\<open>key in v\<close> for a value of type object. The sources ask for the keys \<^verbatim>\<open>tag\<close>,
  \<^verbatim>\<open>value\<close> and \<^verbatim>\<open>payload\<close> only, which arrays, byte strings and \<^verbatim>\<open>Map\<close> instances do
  not have.
\<close>

fun in_op :: "string \<Rightarrow> jsval \<Rightarrow> bool" where
  "in_op k (JObject kvs) = (k \<in> set (map fst kvs))"
| "in_op k (JTagged _ _) = (k \<in> set [''tag'', ''value'', ''err''])"
| "in_op k _ = False"

text \<open>Property read \<^verbatim>\<open>v.key\<close>; a missing property reads as \<^verbatim>\<open>undefined\<close>.\<close>

fun get_prop :: "jsval \<Rightarrow> string \<Rightarrow> jsval" where
  "get_prop (JObject kvs) k = (case map_of kvs k of Some v \<Rightarrow> v | None \<Rightarrow> JUndefined)"
| "get_prop (JTagged t v) k =
     (if k = ''tag'' then JNumber t else if k = ''value'' then v else JUndefined)"
| "get_prop _ k = JUndefined"

fun isArray :: "jsval \<Rightarrow> bool" where
  "isArray (JArray _) = True"
| "isArray _ = False"

text \<open>\<^verbatim>\<open>v instanceof Uint8Array || v instanceof Buffer\<close>.\<close>

fun isBytes :: "jsval \<Rightarrow> bool" where
  "isBytes (JBuffer _) = True"
| "isBytes _ = False"

text \<open>\<^verbatim>\<open>Array.from(bytes)\<close>: the array of the byte values as numbers.\<close>

definition Array_from :: "byte list \<Rightarrow> jsval" where
  "Array_from bs = JArray (map (\<lambda>b. JNumber (uint b)) bs)"

section \<open>Exceptions, payloads and the libraries\<close>

text \<open>
  A thrown value is an \<^verbatim>\<open>Error\<close> instance with its message, or something else. The
  handlers of the sources read \<^verbatim>\<open>error instanceof Error ? error.message : 'Unknown error'\<close>.
\<close>

datatype exn = Error string | NonError

fun error_message :: "exn \<Rightarrow> string" where
  "error_message (Error m) = m"
| "error_message NonError = ''Unknown error''"

text \<open>
  Modelled from the spec: the class \<^verbatim>\<open>Base64Message\<close> (backend/src/Model/Base64Message),
  the Payload of the specification, "wraps raw bytes"; \<^verbatim>\<open>toBuffer\<close> is its raw-bytes view.
\<close>

datatype Base64Message = Base64Message (toBuffer: "byte list")

text \<open>
  Modelled from the spec: the enumeration \<^verbatim>\<open>Decoder\<close> (backend/src/Model/Decoder), "one of
  a fixed enumeration including at least NONE and CBOR (other decoders define their own
  tags)".
\<close>

datatype Decoder = NONE | CBOR | OtherDecoder string

text \<open>
  The functions of the packages \<^verbatim>\<open>cbor\<close> and \<^verbatim>\<open>js-base64\<close>, of the JavaScript runtime and
  of \<^verbatim>\<open>Base64Message\<close> that the sources call are parameters of the model. A call that may
  throw returns \<open>Inl\<close> of the thrown value.
  \<^item> \<open>cbor_decode\<close>, \<open>cbor_encode\<close>: \<^verbatim>\<open>cbor.decode(buffer)\<close>, \<^verbatim>\<open>cbor.encode(value)\<close>;
  \<^item> \<open>JSON_parse\<close>: \<^verbatim>\<open>JSON.parse(text)\<close>;
  \<^item> \<open>JSON_stringify\<close>: \<^verbatim>\<open>JSON.stringify(value, null, 2)\<close>, whose result is a string or
    \<^verbatim>\<open>undefined\<close> (\<open>None\<close>);
  \<^item> \<open>Base64_toUint8Array\<close>, \<open>Base64_fromUint8Array\<close>: the functions of \<^verbatim>\<open>js-base64\<close>;
  \<^item> \<open>Base64Message_fromString\<close>: \<^verbatim>\<open>Base64Message.fromString(str)\<close>, at a string or at
    \<^verbatim>\<open>undefined\<close>;
  \<^item> \<open>Buffer_toString_utf8\<close>: \<^verbatim>\<open>Buffer.from(bytes).toString('utf8')\<close>.
\<close>

record libs =
  cbor_decode :: "byte list \<Rightarrow> exn + jsval"
  cbor_encode :: "jsval \<Rightarrow> exn + byte list"
  JSON_parse :: "string \<Rightarrow> exn + jsval"
  JSON_stringify :: "jsval \<Rightarrow> exn + string option"
  Base64_toUint8Array :: "jsval \<Rightarrow> exn + byte list"
  Base64_fromUint8Array :: "byte list \<Rightarrow> string"
  Base64Message_fromString :: "string option \<Rightarrow> exn + Base64Message"
  Buffer_toString_utf8 :: "byte list \<Rightarrow> string"

section \<open>The CBOR decoder (src/app/src/decoders/CborDecoder.ts)\<close>

record DecoderEnvelope =
  message :: "Base64Message option"
  error :: "string option"
  decoder :: Decoder

text \<open>
  The test \<^verbatim>\<open>decoded && typeof decoded === 'object' && 'tag' in decoded && 'value' in decoded\<close>
  of \<^verbatim>\<open>isCoseSign1\<close> and \<^verbatim>\<open>parseCoseSign1\<close>.
\<close>

definition looks_tagged :: "jsval \<Rightarrow> bool" where
  "looks_tagged decoded =
     (truthy decoded \<and> typeof decoded = T_object \<and> in_op ''tag'' decoded \<and> in_op ''value'' decoded)"

text \<open>
  \<^verbatim>\<open>isCoseSign1(decoded)\<close>. \<open>coseArray_of\<close> is the local \<^verbatim>\<open>coseArray\<close>: the value of a
  wrapper with tag 18 or 98, otherwise \<^verbatim>\<open>decoded\<close> itself.
\<close>

definition coseArray_of :: "jsval \<Rightarrow> jsval" where
  "coseArray_of decoded =
     (if looks_tagged decoded
      then (if get_prop decoded ''tag'' = JNumber 18 \<or> get_prop decoded ''tag'' = JNumber 98
            then get_prop decoded ''value'' else decoded)
      else decoded)"

definition isCoseSign1 :: "jsval \<Rightarrow> bool" where
  "isCoseSign1 decoded =
     (case coseArray_of decoded of
        JArray [e0, e1, e2, e3] \<Rightarrow>
          isBytes e0 \<and>
          typeof e1 = T_object \<and> e1 \<noteq> JNull \<and> \<not> isArray e1 \<and> \<not> isBytes e1 \<and>
          (isBytes e2 \<or> e2 = JNull) \<and>
          isBytes e3
      | _ \<Rightarrow> False)"

text \<open>The test \<^verbatim>\<open>/[\x00-\x08\x0E-\x1F\x7F-\x9F]/.test(s)\<close>.\<close>

definition is_control_char :: "char \<Rightarrow> bool" where
  "is_control_char c =
     (let n = (of_char c :: nat) in n \<le> 8 \<or> (14 \<le> n \<and> n \<le> 31) \<or> (127 \<le> n \<and> n \<le> 159))"

definition has_control_char :: "string \<Rightarrow> bool" where
  "has_control_char s = list_ex is_control_char s"

text \<open>The protected headers of \<^verbatim>\<open>parseCoseSign1\<close>: decoded as CBOR, or an error marker.\<close>

definition parse_protected :: "libs \<Rightarrow> byte list \<Rightarrow> jsval" where
  "parse_protected L protectedBytes =
     (if length protectedBytes > 0
      then (case cbor_decode L protectedBytes of
              Inr protectedDecoded \<Rightarrow> protectedDecoded
            | Inl _ \<Rightarrow>
                JObject [(''_decode_error'', JString ''Failed to decode protected headers''),
                         (''_raw_bytes'', Array_from (take 32 protectedBytes))])
      else JObject [])"

text \<open>The payload of \<^verbatim>\<open>parseCoseSign1\<close>: nested CBOR, else printable text, else a preview.\<close>

definition parse_payload :: "libs \<Rightarrow> byte list \<Rightarrow> jsval" where
  "parse_payload L payloadBytes =
     (case cbor_decode L payloadBytes of
        Inr payloadDecoded \<Rightarrow>
          JObject [(''_type'', JString ''cbor''), (''_decoded'', payloadDecoded)]
      | Inl _ \<Rightarrow>
          (let payloadString = Buffer_toString_utf8 L payloadBytes in
           if length payloadString > 0 \<and> \<not> has_control_char payloadString
           then JObject [(''_type'', JString ''string''), (''_decoded'', JString payloadString)]
           else JObject [(''_type'', JString ''binary''),
                         (''_length'', JNumber (int (length payloadBytes))),
                         (''_preview'', Array_from (take 32 payloadBytes))]))"

definition cose_result :: "jsval \<Rightarrow> jsval \<Rightarrow> jsval \<Rightarrow> jsval \<Rightarrow> byte list \<Rightarrow> jsval" where
  "cose_result tag protected_headers unprotectedHeaders payload signatureBytes =
     JObject [(''_cose_structure'', JString ''COSE_Sign1''),
              (''_cbor_tag'', tag),
              (''protected_headers'', protected_headers),
              (''unprotected_headers'', unprotectedHeaders),
              (''payload'', payload),
              (''signature_info'',
                 JObject [(''length'', JNumber (int (length signatureBytes))),
                          (''preview'', Array_from (take 16 signatureBytes))])]"

text \<open>
  The statements of \<^verbatim>\<open>parseCoseSign1\<close> after \<^verbatim>\<open>tag\<close> and \<^verbatim>\<open>coseArray\<close> are set: the
  destructuring of \<^verbatim>\<open>coseArray\<close> and the construction of \<^verbatim>\<open>result\<close>. The only caller
  of \<^verbatim>\<open>parseCoseSign1\<close> applies it to a value that \<open>isCoseSign1\<close> admits: the four
  elements are then a byte string, an object, a byte string or \<^verbatim>\<open>null\<close>, and a byte
  string, and no statement throws. On the other shapes the destructuring or a member
  access of the body fails or reads a value of another type; the caller excludes them, and
  the last clause sends them to the outer handler.
\<close>

definition parse_elements :: "libs \<Rightarrow> jsval \<Rightarrow> jsval \<Rightarrow> exn + jsval" where
  "parse_elements L tag coseArray =
     (case coseArray of
        JArray [JBuffer protectedBytes, unprotectedHeaders, JNull, JBuffer signatureBytes] \<Rightarrow>
          Inr (cose_result tag (parse_protected L protectedBytes) unprotectedHeaders
                 JNull signatureBytes)
      | JArray [JBuffer protectedBytes, unprotectedHeaders, JBuffer payloadBytes,
                JBuffer signatureBytes] \<Rightarrow>
          Inr (cose_result tag (parse_protected L protectedBytes) unprotectedHeaders
                 (if length payloadBytes > 0 then parse_payload L payloadBytes else JNull)
                 signatureBytes)
      | _ \<Rightarrow> Inl (Error ''TypeError''))"

text \<open>
  The body of the outer \<^verbatim>\<open>try\<close> of \<^verbatim>\<open>parseCoseSign1\<close>: \<^verbatim>\<open>tag\<close> and \<^verbatim>\<open>coseArray\<close>
  are taken from a tagged value whatever its tag number, and are \<^verbatim>\<open>null\<close> and
  \<^verbatim>\<open>decoded\<close> otherwise.
\<close>

definition parseCoseSign1_body :: "libs \<Rightarrow> jsval \<Rightarrow> exn + jsval" where
  "parseCoseSign1_body L decoded =
     (if looks_tagged decoded
      then parse_elements L (get_prop decoded ''tag'') (get_prop decoded ''value'')
      else parse_elements L JNull decoded)"

definition parseCoseSign1 :: "libs \<Rightarrow> jsval \<Rightarrow> jsval" where
  "parseCoseSign1 L decoded =
     (case parseCoseSign1_body L decoded of
        Inr result \<Rightarrow> result
      | Inl e \<Rightarrow>
          JObject [(''_cose_structure'', JString ''COSE_Sign1''),
                   (''_parse_error'', JString ''Failed to parse COSE Sign1 structure''),
                   (''_error_details'', JString (error_message e)),
                   (''_raw_structure'', decoded)])"

text \<open>
  \<^verbatim>\<open>CborDecoder.decode\<close>. \<open>decode_tree\<close> is the value handed to \<^verbatim>\<open>JSON.stringify\<close>: the
  COSE Sign1 structure when the decoded value has that shape, the decoded value otherwise.
  Both branches then serialise, wrap and return in the same way. Every exception of the
  \<^verbatim>\<open>try\<close> block ends in the error envelope.
\<close>

definition decode_tree :: "libs \<Rightarrow> Base64Message \<Rightarrow> exn + jsval" where
  "decode_tree L input =
     (let buffer = toBuffer input in
      case cbor_decode L buffer of
        Inl e \<Rightarrow> Inl e
      | Inr decoded \<Rightarrow>
          Inr (if isCoseSign1 decoded then parseCoseSign1 L decoded else decoded))"

definition render :: "libs \<Rightarrow> jsval \<Rightarrow> exn + Base64Message" where
  "render L v =
     (case JSON_stringify L v of
        Inl e \<Rightarrow> Inl e
      | Inr jsonString \<Rightarrow> Base64Message_fromString L jsonString)"

definition CborDecoder_decode :: "libs \<Rightarrow> Base64Message \<Rightarrow> string option \<Rightarrow> DecoderEnvelope" where
  "CborDecoder_decode L input format =
     (case (case decode_tree L input of Inl e \<Rightarrow> Inl e | Inr v \<Rightarrow> render L v) of
        Inr m \<Rightarrow> \<lparr>message = Some m, error = None, decoder = CBOR\<rparr>
      | Inl e \<Rightarrow>
          \<lparr>message = None,
           error = Some (''Failed to decode CBOR: '' @ error_message e),
           decoder = NONE\<rparr>)"

text \<open>\<^verbatim>\<open>CborDecoder.canDecodeData\<close>.\<close>

definition CborDecoder_canDecodeData :: "libs \<Rightarrow> Base64Message \<Rightarrow> bool" where
  "CborDecoder_canDecodeData L data =
     (let buffer = toBuffer data in
      if length buffer = 0 then False
      else
        (let firstByte = hd buffer;
             majorType = (drop_bit 5 firstByte) AND 0x07
         in if majorType < 0 \<or> majorType > 7 then False
            else (case cbor_decode L buffer of Inl _ \<Rightarrow> False | Inr _ \<Rightarrow> True)))"

definition CborDecoder_formats :: "string list" where
  "CborDecoder_formats = [''CBOR'']"

section \<open>The CBOR/COSE encoder (Publish/encoders/CborCoseEncoder.ts)\<close>

record EncodingResult =
  success :: bool
  data :: "string option"
  error' :: "string option"

definition encoding_success :: "string \<Rightarrow> EncodingResult" where
  "encoding_success base64String = \<lparr>success = True, data = Some base64String, error' = None\<rparr>"

definition encoding_failure :: "string \<Rightarrow> EncodingResult" where
  "encoding_failure msg = \<lparr>success = False, data = None, error' = Some msg\<rparr>"


text \<open>
  The hexadecimal reading of the signature: \<^verbatim>\<open>replace(/^0x/, '')\<close>, then
  \<^verbatim>\<open>replace(/\s/g, '')\<close>, the test \<^verbatim>\<open>/^[0-9A-Fa-f]*$/\<close>, the split \<^verbatim>\<open>match(/.{1,2}/g)\<close>
  and \<^verbatim>\<open>parseInt(byte, 16)\<close>.
\<close>

definition strip_0x :: "string \<Rightarrow> string" where
  "strip_0x s = (if take 2 s = ''0x'' then drop 2 s else s)"

definition is_space :: "char \<Rightarrow> bool" where
  "is_space c = ((of_char c :: nat) \<in> set [9, 10, 11, 12, 13, 32, 160])"

definition hex_digit :: "char \<Rightarrow> nat option" where
  "hex_digit c =
     (let n = (of_char c :: nat) in
      if 48 \<le> n \<and> n \<le> 57 then Some (n - 48)
      else if 65 \<le> n \<and> n \<le> 70 then Some (n - 55)
      else if 97 \<le> n \<and> n \<le> 102 then Some (n - 87)
      else None)"

definition is_hex_digit :: "char \<Rightarrow> bool" where
  "is_hex_digit c = (hex_digit c \<noteq> None)"

fun hex_pairs :: "string \<Rightarrow> string list" where
  "hex_pairs [] = []"
| "hex_pairs [a] = [[a]]"
| "hex_pairs (a # b # cs) = [a, b] # hex_pairs cs"

definition parseInt16 :: "string \<Rightarrow> nat" where
  "parseInt16 ds = foldl (\<lambda>acc c. acc * 16 + (case hex_digit c of Some d \<Rightarrow> d | None \<Rightarrow> 0)) 0 ds"

text \<open>
  The inner \<^verbatim>\<open>try\<close> of the signature: \<open>None\<close> when it throws, which is the case when the
  signature is not a string (it has no method \<^verbatim>\<open>replace\<close>) or is not made of hexadecimal
  digits.
\<close>

definition hex_signature :: "jsval \<Rightarrow> byte list option" where
  "hex_signature signature =
     (case signature of
        JString s \<Rightarrow>
          (let hexString = filter (\<lambda>c. \<not> is_space c) (strip_0x s) in
           if list_all is_hex_digit hexString
           then Some (map (\<lambda>byte. of_nat (parseInt16 byte)) (hex_pairs hexString))
           else None)
      | _ \<Rightarrow> None)"

text \<open>
  The signature bytes of \<^verbatim>\<open>encodeCoseSign1\<close>: base64 first, hexadecimal when the base64
  decoder throws, no bytes when the signature is absent or falsy. \<open>None\<close> is the early
  return with the message about the signature.
\<close>

definition resolve_signature :: "libs \<Rightarrow> jsval \<Rightarrow> byte list option" where
  "resolve_signature L signature =
     (if truthy signature
      then (case Base64_toUint8Array L signature of
              Inr bytes \<Rightarrow> Some bytes
            | Inl _ \<Rightarrow> hex_signature signature)
      else Some [])"

text \<open>The value that \<^verbatim>\<open>encodeCoseSign1\<close> encodes: tag 18 around the four elements.\<close>

definition taggedCose :: "byte list \<Rightarrow> jsval \<Rightarrow> byte list \<Rightarrow> byte list \<Rightarrow> jsval" where
  "taggedCose protectedBytes unprotectedHeaders payloadBytes signatureBytes =
     JTagged 18 (JArray [JBuffer protectedBytes, unprotectedHeaders, JBuffer payloadBytes,
                         JBuffer signatureBytes])"

text \<open>
  The part of \<^verbatim>\<open>encodeCoseSign1\<close> after the validation, up to the tagged value:
  \<open>Inl\<close> an exception for the outer handler, \<open>Inr None\<close> the early return for a bad
  signature, \<open>Inr (Some taggedCose)\<close> the value to encode.
\<close>

definition cose_value :: "libs \<Rightarrow> jsval \<Rightarrow> exn + jsval option" where
  "cose_value L coseData =
     (let protectedHeaders =
            (if truthy (get_prop coseData ''protected_headers'')
             then get_prop coseData ''protected_headers'' else JObject []);
          unprotectedHeaders =
            (if truthy (get_prop coseData ''unprotected_headers'')
             then get_prop coseData ''unprotected_headers'' else JObject [])
      in case cbor_encode L protectedHeaders of
           Inl e \<Rightarrow> Inl e
         | Inr protectedBytes \<Rightarrow>
             (case cbor_encode L (get_prop coseData ''payload'') of
                Inl e \<Rightarrow> Inl e
              | Inr payloadBytes \<Rightarrow>
                  (case resolve_signature L (get_prop coseData ''signature'') of
                     None \<Rightarrow> Inr None
                   | Some signatureBytes \<Rightarrow>
                       Inr (Some (taggedCose protectedBytes unprotectedHeaders payloadBytes
                                    signatureBytes)))))"

text \<open>The CBOR bytes of that value, \<^verbatim>\<open>cborBuffer\<close>.\<close>

definition cose_cborBuffer :: "libs \<Rightarrow> jsval \<Rightarrow> exn + byte list option" where
  "cose_cborBuffer L coseData =
     (case cose_value L coseData of
        Inl e \<Rightarrow> Inl e
      | Inr None \<Rightarrow> Inr None
      | Inr (Some tagged) \<Rightarrow>
          (case cbor_encode L tagged of
             Inl e \<Rightarrow> Inl e
           | Inr cborBuffer \<Rightarrow> Inr (Some cborBuffer)))"

text \<open>The test \<^verbatim>\<open>!coseData || typeof coseData !== 'object'\<close>.\<close>

definition not_an_object :: "jsval \<Rightarrow> bool" where
  "not_an_object coseData = (\<not> truthy coseData \<or> typeof coseData \<noteq> T_object)"

definition encodeCoseSign1 :: "libs \<Rightarrow> string \<Rightarrow> EncodingResult" where
  \<open>encodeCoseSign1 L input =
     (case JSON_parse L input of
        Inl _ \<Rightarrow>
          encoding_failure
            ''COSE input must be valid JSON with structure: {"protected_headers": {...}, "unprotected_headers": {...}, "payload": {...}, "signature": "..."}''
      | Inr coseData \<Rightarrow>
          if not_an_object coseData
          then encoding_failure ''COSE input must be a JSON object''
          else if \<not> in_op ''payload'' coseData
          then encoding_failure ''COSE input must contain a "payload" field''
          else (case cose_cborBuffer L coseData of
                  Inl e \<Rightarrow> encoding_failure (''COSE Sign1 encoding failed: '' @ error_message e)
                | Inr None \<Rightarrow> encoding_failure ''Signature must be valid base64 or hex string''
                | Inr (Some cborBuffer) \<Rightarrow>
                    encoding_success (Base64_fromUint8Array L cborBuffer)))\<close>

section \<open>Decoder resolution and the per-topic cache (model/TopicViewModel)\<close>

record MessageDecoder =
  formats :: "string list"
  canDecodeTopic :: "(string \<Rightarrow> bool) option"
  canDecodeData :: "(Base64Message \<Rightarrow> bool) option"
  decode :: "Base64Message \<Rightarrow> string option \<Rightarrow> DecoderEnvelope"

definition CborDecoder :: "libs \<Rightarrow> MessageDecoder" where
  "CborDecoder L =
     \<lparr>formats = CborDecoder_formats,
      canDecodeTopic = None,
      canDecodeData = Some (CborDecoder_canDecodeData L),
      decode = CborDecoder_decode L\<rparr>"

text \<open>
  The registry \<^verbatim>\<open>decoders\<close> of decoders/index.ts. The Sparkplug, binary and string
  decoders are not among the sources: they are parameters.
\<close>

definition decoders ::
  "libs \<Rightarrow> MessageDecoder \<Rightarrow> MessageDecoder \<Rightarrow> MessageDecoder \<Rightarrow> MessageDecoder list" where
  "decoders L SparkplugDecoder BinaryDecoder StringDecoder =
     [SparkplugDecoder, CborDecoder L, BinaryDecoder, StringDecoder]"

text \<open>
  Modelled from the spec: a tree node (backend/src/Model/TreeNode) gives the resolution
  its "topicPath" and its "optionalLatestPayload": \<^verbatim>\<open>node.path()\<close> and
  \<^verbatim>\<open>node.message?.payload\<close>, \<open>None\<close> when there is no message or no payload.
\<close>

record TreeNode =
  path :: string
  message_payload :: "Base64Message option"

record TopicDecoder =
  td_decoder :: MessageDecoder
  td_format :: "string option"

text \<open>
  The predicate of \<^verbatim>\<open>decoders.find\<close> in \<^verbatim>\<open>findDecoder\<close>:
  \<^verbatim>\<open>decoder.canDecodeTopic?.(node.path()) || (node.message?.payload && decoder.canDecodeData?.(node.message?.payload))\<close>.
\<close>

definition topic_matches :: "TreeNode \<Rightarrow> MessageDecoder \<Rightarrow> bool" where
  "topic_matches node d = (case canDecodeTopic d of Some f \<Rightarrow> f (path node) | None \<Rightarrow> False)"

definition data_matches :: "TreeNode \<Rightarrow> MessageDecoder \<Rightarrow> bool" where
  "data_matches node d =
     (case message_payload node of
        None \<Rightarrow> False
      | Some payload \<Rightarrow> (case canDecodeData d of Some g \<Rightarrow> g payload | None \<Rightarrow> False))"

definition decoder_matches :: "TreeNode \<Rightarrow> MessageDecoder \<Rightarrow> bool" where
  "decoder_matches node d = (topic_matches node d \<or> data_matches node d)"

text \<open>The binding of a decoder: \<^verbatim>\<open>{ decoder, format: decoder.formats[0] }\<close>.\<close>

definition binding :: "MessageDecoder \<Rightarrow> TopicDecoder" where
  "binding d = \<lparr>td_decoder = d, td_format = (case formats d of [] \<Rightarrow> None | f # _ \<Rightarrow> Some f)\<rparr>"

definition findDecoder :: "MessageDecoder list \<Rightarrow> TreeNode \<Rightarrow> TopicDecoder option" where
  "findDecoder ds node =
     (case find (decoder_matches node) ds of
        Some d \<Rightarrow> Some (binding d)
      | None \<Rightarrow> None)"


text \<open>
  The view model of a topic and the tree node that owns it. \<open>owner\<close> tells whether the
  link to the node is set; \<open>cached\<close> is the private field \<^verbatim>\<open>_decoder\<close>. \<open>dispatched\<close>
  records the values handed to \<^verbatim>\<open>onDecoderChange.dispatch\<close>, at once or deferred.
\<close>

record TopicViewModel =
  selected :: bool
  expanded :: bool
  owner :: bool
  cached :: "TopicDecoder option"
  referenceCounter :: int

record topic_state =
  treeNode :: TreeNode
  viewModel :: TopicViewModel
  dispatched :: "TopicDecoder option list"

text \<open>
  The constructor: the subscription to the node's \<^verbatim>\<open>onMessage\<close> that would clear
  \<^verbatim>\<open>_decoder\<close> is commented out in the source, so nothing is subscribed.
\<close>

definition constructor :: "TreeNode \<Rightarrow> topic_state" where
  "constructor node =
     \<lparr>treeNode = node,
      viewModel = \<lparr>selected = False, expanded = False, owner = True, cached = None,
                   referenceCounter = 0\<rparr>,
      dispatched = []\<rparr>"

text \<open>The getter \<^verbatim>\<open>get decoder()\<close>: the value read and the state after the read.\<close>

definition get_decoder :: "MessageDecoder list \<Rightarrow> topic_state \<Rightarrow> TopicDecoder option \<times> topic_state" where
  "get_decoder ds s =
     (case cached (viewModel s) of
        Some b \<Rightarrow> (Some b, s)
      | None \<Rightarrow>
          (case (if owner (viewModel s) then findDecoder ds (treeNode s) else None) of
             Some newDecoder \<Rightarrow>
               (Some newDecoder,
                s\<lparr>viewModel := (viewModel s)\<lparr>cached := Some newDecoder\<rparr>,
                  dispatched := dispatched s @ [Some newDecoder]\<rparr>)
           | None \<Rightarrow> (None, s)))"

text \<open>The setter \<^verbatim>\<open>set decoder(override)\<close>.\<close>

definition set_decoder :: "TopicDecoder option \<Rightarrow> topic_state \<Rightarrow> topic_state" where
  "set_decoder override s =
     s\<lparr>viewModel := (viewModel s)\<lparr>cached := override\<rparr>,
       dispatched := dispatched s @ [override]\<rparr>"

text \<open>
  \<^verbatim>\<open>destroy\<close> removes the link to the owner and the listeners; it leaves \<^verbatim>\<open>_decoder\<close>.
\<close>

definition destroy :: "topic_state \<Rightarrow> topic_state" where
  "destroy s = s\<lparr>viewModel := (viewModel s)\<lparr>owner := False\<rparr>\<rparr>"

definition retain :: "topic_state \<Rightarrow> topic_state" where
  "retain s =
     s\<lparr>viewModel := (viewModel s)\<lparr>referenceCounter := referenceCounter (viewModel s) + 1\<rparr>\<rparr>"

definition release :: "topic_state \<Rightarrow> topic_state" where
  "release s =
     (let s' = s\<lparr>viewModel :=
                   (viewModel s)\<lparr>referenceCounter := referenceCounter (viewModel s) - 1\<rparr>\<rparr>
      in if referenceCounter (viewModel s') \<le> 0 then destroy s' else s')"

text \<open>\<^verbatim>\<open>setSelected\<close> and \<^verbatim>\<open>setExpanded\<close>; their events carry no decoder.\<close>

definition setSelected :: "bool \<Rightarrow> topic_state \<Rightarrow> topic_state" where
  "setSelected sel s = s\<lparr>viewModel := (viewModel s)\<lparr>selected := sel\<rparr>\<rparr>"

definition setExpanded :: "bool \<Rightarrow> bool \<Rightarrow> topic_state \<Rightarrow> topic_state" where
  "setExpanded ex fireEvent s = s\<lparr>viewModel := (viewModel s)\<lparr>expanded := ex\<rparr>\<rparr>"

text \<open>
  Modelled from the spec: the arrival of a message on the topic stores the payload in the
  tree node ("new payload arrives"); the view model subscribes nothing to it.
\<close>

definition message_arrives :: "Base64Message \<Rightarrow> topic_state \<Rightarrow> topic_state" where
  "message_arrives payload s = s\<lparr>treeNode := (treeNode s)\<lparr>message_payload := Some payload\<rparr>\<rparr>"

text \<open>What may happen to a topic, and a run of such events.\<close>

datatype event =
    MessageArrives Base64Message
  | ReadDecoder
  | Override "TopicDecoder option"
  | Retain
  | Release
  | Destroy
  | SetSelected bool
  | SetExpanded bool bool

fun step :: "MessageDecoder list \<Rightarrow> topic_state \<Rightarrow> event \<Rightarrow> topic_state" where
  "step ds s (MessageArrives payload) = message_arrives payload s"
| "step ds s ReadDecoder = snd (get_decoder ds s)"
| "step ds s (Override override) = set_decoder override s"
| "step ds s Retain = retain s"
| "step ds s Release = release s"
| "step ds s Destroy = destroy s"
| "step ds s (SetSelected sel) = setSelected sel s"
| "step ds s (SetExpanded ex fireEvent) = setExpanded ex fireEvent s"

definition run :: "MessageDecoder list \<Rightarrow> event list \<Rightarrow> topic_state \<Rightarrow> topic_state" where
  "run ds es s = foldl (step ds) s es"

fun is_override :: "event \<Rightarrow> bool" where
  "is_override (Override _) = True"
| "is_override _ = False"

section \<open>A reference instance of the libraries\<close>

text \<open>
  The properties of the program that hold whatever the libraries do are stated for every
  value of the parameter. To run the program on concrete inputs, the parameter is
  instantiated with \<open>ref_libs\<close>, defined in this section after the documented behaviour of
  the libraries: base64 after \<^verbatim>\<open>js-base64\<close>, CBOR after RFC 8949 and the package
  \<^verbatim>\<open>cbor\<close>, JSON after ECMA-404 and the functions \<^verbatim>\<open>JSON.parse\<close> and
  \<^verbatim>\<open>JSON.stringify\<close> of ECMAScript.
\<close>

subsection \<open>Decimal numerals\<close>

definition digit_char :: "int \<Rightarrow> char" where
  "digit_char d = char_of (48 + d)"

function show_digits :: "int \<Rightarrow> string" where
  "show_digits n =
     (if n < 10 then [digit_char n] else show_digits (n div 10) @ [digit_char (n mod 10)])"
  by pat_completeness auto
termination
  by (relation "measure nat") auto

declare show_digits.simps [simp del]

definition show_int :: "int \<Rightarrow> string" where
  "show_int i = (if i < 0 then CHR ''-'' # show_digits (- i) else show_digits i)"

subsection \<open>Base64 (js-base64)\<close>

definition b64_alphabet :: string where
  "b64_alphabet = ''ABCDEFGHIJKLMNOPQRSTUVWXYZabcdefghijklmnopqrstuvwxyz0123456789+/''"

definition b64_char :: "int \<Rightarrow> char" where
  "b64_char n = b64_alphabet ! nat n"

fun b64_encode :: "int list \<Rightarrow> string" where
  "b64_encode [] = []"
| "b64_encode [a] = [b64_char (a div 4), b64_char ((a mod 4) * 16), CHR ''='', CHR ''='']"
| "b64_encode [a, b] =
     [b64_char (a div 4), b64_char ((a mod 4) * 16 + b div 16), b64_char ((b mod 16) * 4), CHR ''='']"
| "b64_encode (a # b # c # bs) =
     [b64_char (a div 4), b64_char ((a mod 4) * 16 + b div 16),
      b64_char ((b mod 16) * 4 + c div 64), b64_char (c mod 64)] @ b64_encode bs"

definition b64_index :: "char \<Rightarrow> int option" where
  "b64_index c =
     (let n = (of_char c :: int) in
      if 65 \<le> n \<and> n \<le> 90 then Some (n - 65)
      else if 97 \<le> n \<and> n \<le> 122 then Some (n - 71)
      else if 48 \<le> n \<and> n \<le> 57 then Some (n + 4)
      else if n = 43 \<or> n = 45 then Some 62
      else if n = 47 \<or> n = 95 then Some 63
      else None)"

fun b64_decode :: "int list \<Rightarrow> int list" where
  "b64_decode (a # b # c # d # ds) =
     [a * 4 + b div 16, (b mod 16) * 16 + c div 4, (c mod 4) * 64 + d] @ b64_decode ds"
| "b64_decode [a, b, c] = [a * 4 + b div 16, (b mod 16) * 16 + c div 4]"
| "b64_decode [a, b] = [a * 4 + b div 16]"
| "b64_decode _ = []"

text \<open>
  \<^verbatim>\<open>Base64.fromUint8Array\<close> writes the padded base64 text. \<^verbatim>\<open>Base64.toUint8Array\<close>
  replaces \<^verbatim>\<open>-\<close> and \<^verbatim>\<open>_\<close> by \<^verbatim>\<open>+\<close> and \<^verbatim>\<open>/\<close>, drops every character outside
  the alphabet, the padding included, and decodes what is left, four characters to three
  bytes; it starts with a call of the method \<^verbatim>\<open>replace\<close> of its argument, a
  \<^verbatim>\<open>TypeError\<close> for an argument that is not a string.
\<close>

definition ref_fromUint8Array :: "byte list \<Rightarrow> string" where
  "ref_fromUint8Array bs = b64_encode (map uint bs)"

definition ref_toUint8Array :: "jsval \<Rightarrow> exn + byte list" where
  "ref_toUint8Array a =
     (case a of
        JString s \<Rightarrow> Inr (map of_int (b64_decode (List.map_filter b64_index s)))
      | _ \<Rightarrow> Inl (Error ''a.replace is not a function''))"

subsection \<open>UTF-8\<close>

text \<open>Strings hold code units below 256; a unit from 128 on takes two bytes in UTF-8.\<close>

definition utf8_encode :: "string \<Rightarrow> int list" where
  "utf8_encode s =
     concat (map (\<lambda>c. let n = (of_char c :: int) in
                       if n < 128 then [n] else [192 + n div 64, 128 + n mod 64]) s)"

text \<open>
  Decoding keeps the ASCII bytes and the two-byte sequences of the code points 128 to 255;
  a byte of any other sequence, malformed or of a code point from 256 on, becomes a
  question mark, which like the character it stands for is not a control character.
\<close>

fun utf8_decode :: "int list \<Rightarrow> string" where
  "utf8_decode [] = []"
| "utf8_decode [a] = (if a < 128 then [char_of a] else ''?'')"
| "utf8_decode (a # b # bs) =
     (if a < 128 then char_of a # utf8_decode (b # bs)
      else if (a = 194 \<or> a = 195) \<and> 128 \<le> b \<and> b < 192
      then char_of ((a - 192) * 64 + (b - 128)) # utf8_decode bs
      else CHR ''?'' # utf8_decode (b # bs))"

definition ref_toString_utf8 :: "byte list \<Rightarrow> string" where
  "ref_toString_utf8 bs = utf8_decode (map uint bs)"

text \<open>
  Modelled from the spec: \<^verbatim>\<open>Base64Message.fromString\<close> (backend/src/Model/Base64Message)
  constructs a Payload "from a text string (encoded to bytes deterministically, e.g.
  UTF-8)". The value \<^verbatim>\<open>undefined\<close> is not a text string: the encoder of the string
  rejects it with a \<^verbatim>\<open>TypeError\<close>.
\<close>

definition ref_fromString :: "string option \<Rightarrow> exn + Base64Message" where
  "ref_fromString str =
     (case str of
        None \<Rightarrow> Inl (Error ''The first argument must be of type string. Received undefined'')
      | Some s \<Rightarrow> Inr (Base64Message (map of_int (utf8_encode s))))"

subsection \<open>CBOR (the package cbor)\<close>

text \<open>
  The reference encoder and decoder cover the items whose JavaScript value the datatype
  \<open>jsval\<close> holds: integers, byte and text strings, arrays, maps, tags that the package
  leaves as \<^verbatim>\<open>Tagged\<close>, and the simple values false, true, null and undefined, all of
  definite length. On any other item they answer with the exception \<open>unmodelled\<close>. The
  encoder writes a string as a text string of its UTF-8 bytes, with their number in the
  head; the decoder reads the text strings whose bytes are ASCII.
\<close>

definition unmodelled :: exn where
  "unmodelled = Error ''outside the modelled fragment''"

definition be_bytes :: "nat \<Rightarrow> int \<Rightarrow> int list" where
  "be_bytes k n = map (\<lambda>i. (n div 256 ^ i) mod 256) (rev [0..<k])"

definition cbor_head :: "int \<Rightarrow> int \<Rightarrow> int list" where
  "cbor_head mt n =
     (if n < 24 then [mt * 32 + n]
      else if n < 256 then (mt * 32 + 24) # be_bytes 1 n
      else if n < 65536 then (mt * 32 + 25) # be_bytes 2 n
      else if n < 4294967296 then (mt * 32 + 26) # be_bytes 4 n
      else (mt * 32 + 27) # be_bytes 8 n)"

definition cbor_enc_string :: "string \<Rightarrow> int list option" where
  "cbor_enc_string s = Some (cbor_head 3 (int (length (utf8_encode s))) @ utf8_encode s)"

definition join_options :: "int list option list \<Rightarrow> int list option" where
  "join_options rs = (case those rs of None \<Rightarrow> None | Some bs \<Rightarrow> Some (concat bs))"

definition both :: "int list option \<Rightarrow> int list option \<Rightarrow> int list option" where
  "both a b = (case a of None \<Rightarrow> None | Some x \<Rightarrow> (case b of None \<Rightarrow> None | Some y \<Rightarrow> Some (x @ y)))"

fun cbor_enc :: "jsval \<Rightarrow> int list option" where
  "cbor_enc JUndefined = Some [247]"
| "cbor_enc JNull = Some [246]"
| "cbor_enc (JBool b) = Some [if b then 245 else 244]"
| "cbor_enc (JNumber n) =
     (if 0 \<le> n \<and> n < 2 ^ 53 then Some (cbor_head 0 n)
      else if - (2 ^ 53) < n \<and> n < 0 then Some (cbor_head 1 (- 1 - n))
      else None)"
| "cbor_enc (JBigInt n) = None"
| "cbor_enc (JString s) = cbor_enc_string s"
| "cbor_enc (JBuffer bs) = Some (cbor_head 2 (int (length bs)) @ map uint bs)"
| "cbor_enc (JArray xs) =
     both (Some (cbor_head 4 (int (length xs)))) (join_options (map cbor_enc xs))"
| "cbor_enc (JObject kvs) =
     both (Some (cbor_head 5 (int (length kvs))))
       (join_options (map (\<lambda>p. both (cbor_enc_string (fst p)) (cbor_enc (snd p))) kvs))"
| "cbor_enc (JMap kvs) =
     both (Some (cbor_head 5 (int (length kvs))))
       (join_options (map (\<lambda>p. both (cbor_enc (fst p)) (cbor_enc (snd p))) kvs))"
| "cbor_enc (JTagged t v) =
     (if 0 \<le> t then both (Some (cbor_head 6 t)) (cbor_enc v) else None)"

definition ref_cbor_encode :: "jsval \<Rightarrow> exn + byte list" where
  "ref_cbor_encode v = (case cbor_enc v of Some bs \<Rightarrow> Inr (map of_int bs) | None \<Rightarrow> Inl unmodelled)"

definition be_value :: "int list \<Rightarrow> int" where
  "be_value bs = foldl (\<lambda>acc b. acc * 256 + b) 0 bs"

definition arg_length :: "int \<Rightarrow> nat" where
  "arg_length ai = (if ai = 24 then 1 else if ai = 25 then 2 else if ai = 26 then 4 else 8)"

text \<open>The head of an item: major type, additional information, argument, rest.\<close>

definition cbor_arg :: "int list \<Rightarrow> (int \<times> int \<times> int \<times> int list) option" where
  "cbor_arg bs =
     (case bs of
        [] \<Rightarrow> None
      | b # rest \<Rightarrow>
          (let mt = b div 32; ai = b mod 32 in
           if ai < 24 then Some (mt, ai, ai, rest)
           else if ai < 28
           then (if length rest < arg_length ai then None
                 else Some (mt, ai, be_value (take (arg_length ai) rest), drop (arg_length ai) rest))
           else Some (mt, ai, 0, rest)))"

text \<open>
  A property assignment \<^verbatim>\<open>obj[k] = v\<close>: a new key goes to the end, a known key keeps its
  place and takes the new value.
\<close>

fun obj_set :: "(string \<times> jsval) list \<Rightarrow> string \<Rightarrow> jsval \<Rightarrow> (string \<times> jsval) list" where
  "obj_set [] k v = [(k, v)]"
| "obj_set ((k', v') # kvs) k v = (if k' = k then (k, v) # kvs else (k', v') # obj_set kvs k v)"

definition object_of :: "(string \<times> jsval) list \<Rightarrow> jsval" where
  "object_of kvs = JObject (foldl (\<lambda>obj p. obj_set obj (fst p) (snd p)) [] kvs)"

fun string_key :: "jsval \<times> jsval \<Rightarrow> (string \<times> jsval) option" where
  "string_key (JString k, v) = Some (k, v)"
| "string_key _ = None"

text \<open>A decoded map: a plain object when every key is a string, a \<^verbatim>\<open>Map\<close> otherwise.\<close>

definition map_value :: "(jsval \<times> jsval) list \<Rightarrow> jsval" where
  "map_value kvs = (case those (map string_key kvs) of Some props \<Rightarrow> object_of props | None \<Rightarrow> JMap kvs)"

text \<open>
  Tags for which the package has a conversion of its own (dates, big numbers, expected
  encodings, URLs, regular expressions, typed arrays, sets); every other tag gives a
  \<^verbatim>\<open>Tagged\<close> value.
\<close>

definition converted_tags :: "int list" where
  "converted_tags = [0, 1, 2, 3, 21, 22, 23, 32, 33, 34, 35, 258] @ map int [64..<88]"

definition insufficient :: exn where
  "insufficient = Error ''Insufficient data''"

fun cbor_item :: "nat \<Rightarrow> int list \<Rightarrow> exn + (jsval \<times> int list)"
  and cbor_items :: "nat \<Rightarrow> int \<Rightarrow> int list \<Rightarrow> exn + (jsval list \<times> int list)"
  and cbor_pairs :: "nat \<Rightarrow> int \<Rightarrow> int list \<Rightarrow> exn + ((jsval \<times> jsval) list \<times> int list)"
where
  "cbor_item 0 bs = Inl unmodelled"
| "cbor_item (Suc f) bs =
     (case cbor_arg bs of
        None \<Rightarrow> Inl insufficient
      | Some (mt, ai, n, rest) \<Rightarrow>
          if ai = 31 then Inl unmodelled
          else if ai \<ge> 28 then Inl (Error ''Additional info not implemented'')
          else if mt = 0 then Inr (if n < 2 ^ 53 then JNumber n else JBigInt n, rest)
          else if mt = 1
          then Inr (if n < 2 ^ 53 - 1 then JNumber (- 1 - n) else JBigInt (- 1 - n), rest)
          else if mt = 2
          then (if int (length rest) < n then Inl insufficient
                else Inr (JBuffer (map of_int (take (nat n) rest)), drop (nat n) rest))
          else if mt = 3
          then (if int (length rest) < n then Inl insufficient
                else if list_all (\<lambda>b. b < 128) (take (nat n) rest)
                then Inr (JString (map char_of (take (nat n) rest)), drop (nat n) rest)
                else Inl unmodelled)
          else if mt = 4
          then (case cbor_items f n rest of
                  Inl e \<Rightarrow> Inl e
                | Inr (xs, rest') \<Rightarrow> Inr (JArray xs, rest'))
          else if mt = 5
          then (case cbor_pairs f n rest of
                  Inl e \<Rightarrow> Inl e
                | Inr (kvs, rest') \<Rightarrow> Inr (map_value kvs, rest'))
          else if mt = 6
          then (if n \<in> set converted_tags then Inl unmodelled
                else (case cbor_item f rest of
                        Inl e \<Rightarrow> Inl e
                      | Inr (v, rest') \<Rightarrow> Inr (JTagged n v, rest')))
          else if ai = 20 then Inr (JBool False, rest)
          else if ai = 21 then Inr (JBool True, rest)
          else if ai = 22 then Inr (JNull, rest)
          else if ai = 23 then Inr (JUndefined, rest)
          else Inl unmodelled)"
| "cbor_items 0 n bs = Inl unmodelled"
| "cbor_items (Suc f) n bs =
     (if n \<le> 0 then Inr ([], bs)
      else (case cbor_item f bs of
              Inl e \<Rightarrow> Inl e
            | Inr (x, rest) \<Rightarrow>
                (case cbor_items f (n - 1) rest of
                   Inl e \<Rightarrow> Inl e
                 | Inr (xs, rest') \<Rightarrow> Inr (x # xs, rest'))))"
| "cbor_pairs 0 n bs = Inl unmodelled"
| "cbor_pairs (Suc f) n bs =
     (if n \<le> 0 then Inr ([], bs)
      else (case cbor_item f bs of
              Inl e \<Rightarrow> Inl e
            | Inr (k, rest) \<Rightarrow>
                (case cbor_item f rest of
                   Inl e \<Rightarrow> Inl e
                 | Inr (v, rest') \<Rightarrow>
                     (case cbor_pairs f (n - 1) rest' of
                        Inl e \<Rightarrow> Inl e
                      | Inr (kvs, rest'') \<Rightarrow> Inr ((k, v) # kvs, rest'')))))"

text \<open>
  \<^verbatim>\<open>cbor.decode\<close> reads one item and rejects bytes after it. The fuel is more than the
  number of calls a buffer of this length can cause.
\<close>

definition ref_cbor_decode :: "byte list \<Rightarrow> exn + jsval" where
  "ref_cbor_decode buffer =
     (case cbor_item (2 * length buffer + 2) (map uint buffer) of
        Inl e \<Rightarrow> Inl e
      | Inr (v, rest) \<Rightarrow> if rest = [] then Inr v else Inl (Error ''Unexpected data''))"

subsection \<open>JSON (the JavaScript runtime)\<close>

text \<open>
  The reference parser reads JSON texts whose numbers are integers that a JavaScript
  number holds exactly, the only numbers of \<open>jsval\<close>, and whose characters are below 256.
  It answers a number with a fraction or an exponent, an integer of magnitude \<open>2\<^sup>5\<^sup>3\<close> or
  more, the negative zero, and a character escape from 256 on, like a syntax error.
\<close>

definition is_json_ws :: "char \<Rightarrow> bool" where
  "is_json_ws c = ((of_char c :: nat) \<in> set [32, 9, 10, 13])"

definition skip_ws :: "string \<Rightarrow> string" where
  "skip_ws s = dropWhile is_json_ws s"

definition is_digit :: "char \<Rightarrow> bool" where
  "is_digit c = (48 \<le> (of_char c :: nat) \<and> (of_char c :: nat) \<le> 57)"

definition digits_value :: "string \<Rightarrow> int" where
  "digits_value ds = foldl (\<lambda>acc c. acc * 10 + (of_char c - 48)) 0 ds"

definition json_number :: "string \<Rightarrow> (jsval \<times> string) option" where
  "json_number s =
     (let neg = (take 1 s = ''-'');
          s1 = (if neg then drop 1 s else s);
          ds = takeWhile is_digit s1;
          rest = dropWhile is_digit s1
      in if ds = [] \<or> (length ds > 1 \<and> take 1 ds = ''0'') then None
         else if take 1 rest = ''.'' \<or> take 1 rest = ''e'' \<or> take 1 rest = ''E'' then None
         else if 2 ^ 53 \<le> digits_value ds \<or> (neg \<and> digits_value ds = 0) then None
         else Some (JNumber (if neg then - digits_value ds else digits_value ds), rest))"

definition json_escape :: "char \<Rightarrow> char option" where
  "json_escape c =
     (if c = CHR 0x22 \<or> c = CHR 0x5C \<or> c = CHR ''/'' then Some c
      else if c = CHR ''b'' then Some (CHR 0x08)
      else if c = CHR ''f'' then Some (CHR 0x0C)
      else if c = CHR ''n'' then Some (CHR 0x0A)
      else if c = CHR ''r'' then Some (CHR 0x0D)
      else if c = CHR ''t'' then Some (CHR 0x09)
      else None)"

text \<open>The characters of a string literal after its opening quote, and the rest.\<close>

fun json_string :: "string \<Rightarrow> (string \<times> string) option" where
  "json_string [] = None"
| "json_string [c] = (if c = CHR 0x22 then Some ([], []) else None)"
| "json_string (c # d # cs) =
     (if c = CHR 0x22 then Some ([], d # cs)
      else if c = CHR 0x5C
      then (if d = CHR ''u''
            then (if length cs \<ge> 4 \<and> list_all is_hex_digit (take 4 cs) \<and> parseInt16 (take 4 cs) < 256
                  then (case json_string (drop 4 cs) of
                          None \<Rightarrow> None
                        | Some (str, rest) \<Rightarrow> Some (char_of (parseInt16 (take 4 cs)) # str, rest))
                  else None)
            else (case json_escape d of
                    None \<Rightarrow> None
                  | Some e \<Rightarrow>
                      (case json_string cs of
                         None \<Rightarrow> None
                       | Some (str, rest) \<Rightarrow> Some (e # str, rest))))
      else if (of_char c :: nat) < 32 then None
      else (case json_string (d # cs) of
              None \<Rightarrow> None
            | Some (str, rest) \<Rightarrow> Some (c # str, rest)))"

fun json_value :: "nat \<Rightarrow> string \<Rightarrow> (jsval \<times> string) option"
  and json_elements :: "nat \<Rightarrow> string \<Rightarrow> (jsval list \<times> string) option"
  and json_members :: "nat \<Rightarrow> string \<Rightarrow> ((string \<times> jsval) list \<times> string) option"
where
  "json_value 0 s = None"
| "json_value (Suc f) s =
     (let t = skip_ws s in
      if take 4 t = ''null'' then Some (JNull, drop 4 t)
      else if take 4 t = ''true'' then Some (JBool True, drop 4 t)
      else if take 5 t = ''false'' then Some (JBool False, drop 5 t)
      else if take 1 t = [CHR 0x22]
      then (case json_string (drop 1 t) of
              None \<Rightarrow> None
            | Some (str, rest) \<Rightarrow> Some (JString str, rest))
      else if take 1 t = ''[''
      then (if take 1 (skip_ws (drop 1 t)) = '']'' then Some (JArray [], drop 1 (skip_ws (drop 1 t)))
            else (case json_elements f (drop 1 t) of
                    None \<Rightarrow> None
                  | Some (xs, rest) \<Rightarrow> Some (JArray xs, rest)))
      else if take 1 t = ''{''
      then (if take 1 (skip_ws (drop 1 t)) = ''}'' then Some (JObject [], drop 1 (skip_ws (drop 1 t)))
            else (case json_members f (drop 1 t) of
                    None \<Rightarrow> None
                  | Some (kvs, rest) \<Rightarrow> Some (object_of kvs, rest)))
      else json_number t)"
| "json_elements 0 s = None"
| "json_elements (Suc f) s =
     (case json_value f s of
        None \<Rightarrow> None
      | Some (x, rest) \<Rightarrow>
          (let t = skip_ws rest in
           if take 1 t = '','' then
             (case json_elements f (drop 1 t) of
                None \<Rightarrow> None
              | Some (xs, rest') \<Rightarrow> Some (x # xs, rest'))
           else if take 1 t = '']'' then Some ([x], drop 1 t)
           else None))"
| "json_members 0 s = None"
| "json_members (Suc f) s =
     (let t = skip_ws s in
      if take 1 t = [CHR 0x22]
      then (case json_string (drop 1 t) of
              None \<Rightarrow> None
            | Some (k, rest) \<Rightarrow>
                (let t1 = skip_ws rest in
                 if take 1 t1 = '':''
                 then (case json_value f (drop 1 t1) of
                         None \<Rightarrow> None
                       | Some (v, rest') \<Rightarrow>
                           (let t2 = skip_ws rest' in
                            if take 1 t2 = '','' then
                              (case json_members f (drop 1 t2) of
                                 None \<Rightarrow> None
                               | Some (kvs, rest'') \<Rightarrow> Some ((k, v) # kvs, rest''))
                            else if take 1 t2 = ''}'' then Some ([(k, v)], drop 1 t2)
                            else None))
                 else None))
      else None)"

definition ref_JSON_parse :: "string \<Rightarrow> exn + jsval" where
  "ref_JSON_parse text =
     (case json_value (2 * length text + 2) text of
        None \<Rightarrow> Inl (Error ''Unexpected token in JSON'')
      | Some (v, rest) \<Rightarrow>
          if skip_ws rest = [] then Inr v else Inl (Error ''Unexpected token in JSON''))"

text \<open>
  \<^verbatim>\<open>JSON.stringify(value, null, 2)\<close>: a member of an object or an element of an array
  stands on a line of its own, two spaces deeper than its parent. A property whose value
  is \<^verbatim>\<open>undefined\<close> is left out, an element that is \<^verbatim>\<open>undefined\<close> is written \<^verbatim>\<open>null\<close>,
  a \<^verbatim>\<open>Buffer\<close> is written through its \<^verbatim>\<open>toJSON\<close>, a \<^verbatim>\<open>Tagged\<close> value with its tag and
  value, a \<^verbatim>\<open>Map\<close> as an empty object, and a \<^verbatim>\<open>BigInt\<close> throws.
\<close>

definition hex_char :: "nat \<Rightarrow> char" where
  "hex_char d = ''0123456789abcdef'' ! d"

definition quote_char :: "char \<Rightarrow> string" where
  "quote_char c =
     (let n = (of_char c :: nat) in
      if c = CHR 0x22 then [CHR 0x5C, CHR 0x22]
      else if c = CHR 0x5C then [CHR 0x5C, CHR 0x5C]
      else if n = 8 then [CHR 0x5C, CHR ''b'']
      else if n = 9 then [CHR 0x5C, CHR ''t'']
      else if n = 10 then [CHR 0x5C, CHR ''n'']
      else if n = 12 then [CHR 0x5C, CHR ''f'']
      else if n = 13 then [CHR 0x5C, CHR ''r'']
      else if n < 32 then [CHR 0x5C, CHR ''u'', CHR ''0'', CHR ''0'', hex_char (n div 16), hex_char (n mod 16)]
      else [c])"

definition quote :: "string \<Rightarrow> string" where
  "quote s = [CHR 0x22] @ concat (map quote_char s) @ [CHR 0x22]"

definition spaces :: "nat \<Rightarrow> string" where
  "spaces n = replicate n (CHR '' '')"

fun join_lines :: "string list \<Rightarrow> string" where
  "join_lines [] = []"
| "join_lines [l] = l"
| "join_lines (l # ls) = l @ [CHR '','', CHR 0x0A] @ join_lines ls"

definition fmt_array :: "nat \<Rightarrow> string list \<Rightarrow> string" where
  "fmt_array ind items =
     (if items = [] then ''[]''
      else ''['' @ [CHR 0x0A] @ join_lines (map (\<lambda>i. spaces (ind + 2) @ i) items) @
           [CHR 0x0A] @ spaces ind @ '']'')"

definition fmt_object :: "nat \<Rightarrow> (string \<times> string option) list \<Rightarrow> string" where
  "fmt_object ind members =
     (let present = List.map_filter (\<lambda>m. map_option (\<lambda>v. quote (fst m) @ '': '' @ v) (snd m)) members
      in if present = [] then ''{}''
         else ''{'' @ [CHR 0x0A] @ join_lines (map (\<lambda>l. spaces (ind + 2) @ l) present) @
              [CHR 0x0A] @ spaces ind @ ''}'')"

fun first_error :: "(exn + 'a) list \<Rightarrow> exn + 'a list" where
  "first_error [] = Inr []"
| "first_error (Inl e # rs) = Inl e"
| "first_error (Inr x # rs) = (case first_error rs of Inl e \<Rightarrow> Inl e | Inr xs \<Rightarrow> Inr (x # xs))"

definition or_null :: "string option \<Rightarrow> string" where
  "or_null r = (case r of None \<Rightarrow> ''null'' | Some t \<Rightarrow> t)"

fun stringify :: "nat \<Rightarrow> jsval \<Rightarrow> exn + string option" where
  "stringify ind JUndefined = Inr None"
| "stringify ind JNull = Inr (Some ''null'')"
| "stringify ind (JBool b) = Inr (Some (if b then ''true'' else ''false''))"
| "stringify ind (JNumber n) = Inr (Some (show_int n))"
| "stringify ind (JBigInt n) = Inl (Error ''Do not know how to serialize a BigInt'')"
| "stringify ind (JString s) = Inr (Some (quote s))"
| "stringify ind (JBuffer bs) =
     Inr (Some (fmt_object ind
                  [(''type'', Some (quote ''Buffer'')),
                   (''data'', Some (fmt_array (ind + 2) (map (\<lambda>b. show_int (uint b)) bs)))]))"
| "stringify ind (JArray xs) =
     (case first_error (map (stringify (ind + 2)) xs) of
        Inl e \<Rightarrow> Inl e
      | Inr items \<Rightarrow> Inr (Some (fmt_array ind (map or_null items))))"
| "stringify ind (JObject kvs) =
     (case first_error (map (\<lambda>p. stringify (ind + 2) (snd p)) kvs) of
        Inl e \<Rightarrow> Inl e
      | Inr values \<Rightarrow> Inr (Some (fmt_object ind (zip (map fst kvs) values))))"
| "stringify ind (JMap kvs) = Inr (Some ''{}'')"
| "stringify ind (JTagged t v) =
     (case stringify (ind + 2) v of
        Inl e \<Rightarrow> Inl e
      | Inr r \<Rightarrow> Inr (Some (fmt_object ind [(''tag'', Some (show_int t)), (''value'', r)])))"

definition ref_JSON_stringify :: "jsval \<Rightarrow> exn + string option" where
  "ref_JSON_stringify v = stringify 0 v"

subsection \<open>The reference instance\<close>

definition ref_libs :: libs where
  "ref_libs =
     \<lparr>cbor_decode = ref_cbor_decode,
      cbor_encode = ref_cbor_encode,
      JSON_parse = ref_JSON_parse,
      JSON_stringify = ref_JSON_stringify,
      Base64_toUint8Array = ref_toUint8Array,
      Base64_fromUint8Array = ref_fromUint8Array,
      Base64Message_fromString = ref_fromString,
      Buffer_toString_utf8 = ref_toString_utf8\<rparr>"

section \<open>Notions and examples for the statements\<close>

text \<open>A key/value map among the decoded values: a plain object or a \<^verbatim>\<open>Map\<close>.\<close>

fun is_key_value_map :: "jsval \<Rightarrow> bool" where
  "is_key_value_map (JObject _) = True"
| "is_key_value_map (JMap _) = True"
| "is_key_value_map _ = False"

text \<open>
  The values of type object other than \<^verbatim>\<open>null\<close>, arrays and byte strings: the key/value
  maps and the tagged values.
\<close>

fun is_object_value :: "jsval \<Rightarrow> bool" where
  "is_object_value (JObject _) = True"
| "is_object_value (JMap _) = True"
| "is_object_value (JTagged _ _) = True"
| "is_object_value _ = False"


text \<open>The payload entry that \<^verbatim>\<open>parseCoseSign1\<close> builds from the third element.\<close>

definition payload_view :: "libs \<Rightarrow> jsval \<Rightarrow> jsval" where
  "payload_view L pl =
     (case pl of JBuffer b \<Rightarrow> if length b > 0 then parse_payload L b else JNull | _ \<Rightarrow> JNull)"

text \<open>
  Example values of the three decoders that are parameters of the registry, for
  evaluations on concrete inputs: a first decoder with a topic-name predicate, and a binary
  and a string decoder that declare their formats and no predicate. They are examples, not
  the decoders of the repository.
\<close>

definition passthrough :: "Base64Message \<Rightarrow> string option \<Rightarrow> DecoderEnvelope" where
  "passthrough input format = \<lparr>message = Some input, error = None, decoder = NONE\<rparr>"

definition example_SparkplugDecoder :: MessageDecoder where
  "example_SparkplugDecoder =
     \<lparr>formats = [''Sparkplug''],
      canDecodeTopic = Some (\<lambda>topic. take 8 topic = ''spBv1.0/''),
      canDecodeData = None,
      decode = passthrough\<rparr>"

definition example_BinaryDecoder :: MessageDecoder where
  "example_BinaryDecoder =
     \<lparr>formats = [''int8'', ''int16''], canDecodeTopic = None, canDecodeData = None,
      decode = passthrough\<rparr>"

definition example_StringDecoder :: MessageDecoder where
  "example_StringDecoder =
     \<lparr>formats = [''string''], canDecodeTopic = None, canDecodeData = None, decode = passthrough\<rparr>"

definition example_decoders :: "MessageDecoder list" where
  "example_decoders =
     decoders ref_libs example_SparkplugDecoder example_BinaryDecoder example_StringDecoder"


definition example_node2 :: TreeNode where
  "example_node2 = \<lparr>path = ''home/sensor'', message_payload = Some (Base64Message [0x01])\<rparr>"





section \<open>Properties of the decoder\<close>

lemma decode_cases:
  "CborDecoder_decode L input format =
     (case (case decode_tree L input of Inl e \<Rightarrow> Inl e | Inr v \<Rightarrow> render L v) of
        Inr m \<Rightarrow> \<lparr>message = Some m, error = None, decoder = CBOR\<rparr>
      | Inl e \<Rightarrow>
          \<lparr>message = None,
           error = Some (''Failed to decode CBOR: '' @ error_message e),
           decoder = NONE\<rparr>)"
  by (simp add: CborDecoder_decode_def)

text \<open>
  C1. For every payload and every format hint, \<^verbatim>\<open>CborDecoder.decode\<close> returns: either a
  success envelope, with a message, no error and decoder CBOR, or an error envelope, with an
  error text, no message and decoder NONE. The function is total (no exception leaves it)
  and the two shapes exclude each other.
\<close>

theorem decode_success_or_error:
  "(\<exists>m. CborDecoder_decode L input format = \<lparr>message = Some m, error = None, decoder = CBOR\<rparr>) \<or>
   (\<exists>e. CborDecoder_decode L input format = \<lparr>message = None, error = Some e, decoder = NONE\<rparr>)"
proof (cases "case decode_tree L input of Inl e \<Rightarrow> Inl e | Inr v \<Rightarrow> render L v")
  case (Inl e)
  then show ?thesis by (simp add: decode_cases)
next
  case (Inr m)
  then show ?thesis by (simp add: decode_cases)
qed

section \<open>Properties of the decoder resolution\<close>

lemma canDecodeData_one: "CborDecoder_canDecodeData ref_libs (Base64Message [0x01])"
  by code_simp

lemma findDecoder_decoders:
  "findDecoder (decoders L sp bin str) node =
     (if decoder_matches node sp then Some (binding sp)
      else if decoder_matches node (CborDecoder L) then Some (binding (CborDecoder L))
      else if decoder_matches node bin then Some (binding bin)
      else if decoder_matches node str then Some (binding str)
      else None)"
  by (simp add: findDecoder_def decoders_def)







section \<open>Properties of the COSE Sign1 test and parser\<close>

lemma object_value_iff:
  "(typeof e = T_object \<and> e \<noteq> JNull \<and> \<not> isArray e \<and> \<not> isBytes e) = is_object_value e"
  by (cases e) simp_all

lemma coseArray_of_JArray: "coseArray_of (JArray es) = JArray es"
  by (simp add: coseArray_of_def looks_tagged_def)

lemma coseArray_of_JTagged:
  "coseArray_of (JTagged t v) = (if t = 18 \<or> t = 98 then v else JTagged t v)"
  by (simp add: coseArray_of_def looks_tagged_def)

lemma isCoseSign1_elems:
  "coseArray_of decoded = JArray [e0, e1, e2, e3] \<Longrightarrow>
   isCoseSign1 decoded = (isBytes e0 \<and> is_object_value e1 \<and> (isBytes e2 \<or> e2 = JNull) \<and> isBytes e3)"
  using object_value_iff [of e1] by (auto simp: isCoseSign1_def)

lemma decode_tree_plain:
  "cbor_decode L (toBuffer input) = Inr decoded \<Longrightarrow> \<not> isCoseSign1 decoded \<Longrightarrow>
   decode_tree L input = Inr decoded"
  by (simp add: decode_tree_def)

lemma decode_tree_cose:
  "cbor_decode L (toBuffer input) = Inr decoded \<Longrightarrow> isCoseSign1 decoded \<Longrightarrow>
   decode_tree L input = Inr (parseCoseSign1 L decoded)"
  by (simp add: decode_tree_def)

text \<open>
  C3, as amended. A four-element array, bare or wrapped in tag 18 or 98, is classified as
  COSE Sign1 exactly when element 0 is a byte string, element 1 is a value of type object
  other than \<^verbatim>\<open>null\<close>, an array or a byte string (a key/value map, or a tagged value),
  element 2 is a byte string or \<^verbatim>\<open>null\<close>, and element 3 is a byte string. So
  [bstr, map, bstr, bstr] is COSE Sign1, and [bstr, bstr, bstr, bstr] is not: the decoder
  renders it as the plain array.
\<close>

theorem isCoseSign1_four_elements:
  "isCoseSign1 (JArray [e0, e1, e2, e3]) =
     (isBytes e0 \<and> is_object_value e1 \<and> (isBytes e2 \<or> e2 = JNull) \<and> isBytes e3) \<and>
   isCoseSign1 (JTagged 18 (JArray [e0, e1, e2, e3])) =
     (isBytes e0 \<and> is_object_value e1 \<and> (isBytes e2 \<or> e2 = JNull) \<and> isBytes e3) \<and>
   isCoseSign1 (JTagged 98 (JArray [e0, e1, e2, e3])) =
     (isBytes e0 \<and> is_object_value e1 \<and> (isBytes e2 \<or> e2 = JNull) \<and> isBytes e3) \<and>
   isCoseSign1 (JArray [JBuffer a, JObject m, JBuffer c, JBuffer d]) \<and>
   \<not> isCoseSign1 (JArray [JBuffer a, JBuffer b, JBuffer c, JBuffer d]) \<and>
   (cbor_decode L (toBuffer input) = Inr (JArray [JBuffer a, JBuffer b, JBuffer c, JBuffer d]) \<longrightarrow>
      decode_tree L input = Inr (JArray [JBuffer a, JBuffer b, JBuffer c, JBuffer d]))"
proof -
  have n: "\<not> isCoseSign1 (JArray [JBuffer a, JBuffer b, JBuffer c, JBuffer d])"
    by (simp add: isCoseSign1_elems coseArray_of_JArray)
  show ?thesis
    using n decode_tree_plain [of L input "JArray [JBuffer a, JBuffer b, JBuffer c, JBuffer d]"]
    by (simp add: isCoseSign1_elems coseArray_of_JArray coseArray_of_JTagged)
qed

theorem isCoseSign1_four_elements_witness:
  "cbor_decode ref_libs (toBuffer (Base64Message [0x84, 0x40, 0x40, 0x40, 0x40])) =
     Inr (JArray [JBuffer [], JBuffer [], JBuffer [], JBuffer []]) \<and>
   decode_tree ref_libs (Base64Message [0x84, 0x40, 0x40, 0x40, 0x40]) =
     Inr (JArray [JBuffer [], JBuffer [], JBuffer [], JBuffer []])"
proof -
  have h: "cbor_decode ref_libs (toBuffer (Base64Message [0x84, 0x40, 0x40, 0x40, 0x40])) =
     Inr (JArray [JBuffer [], JBuffer [], JBuffer [], JBuffer []])"
    by code_simp
  from isCoseSign1_four_elements [where a = "[]" and b = "[]" and c = "[]" and d = "[]"
      and L = ref_libs and input = "Base64Message [0x84, 0x40, 0x40, 0x40, 0x40]"] h
  show ?thesis by blast
qed

text \<open>
  C3 as stated fails: the bytes 84 40 D8 62 00 40 40 decode to an array whose element 1 is
  the tagged value 98(0), not a key/value map, and the array is classified as COSE Sign1.
\<close>

theorem isCoseSign1_tagged_header_counterexample:
  "cbor_decode ref_libs [0x84, 0x40, 0xD8, 0x62, 0x00, 0x40, 0x40] =
     Inr (JArray [JBuffer [], JTagged 98 (JNumber 0), JBuffer [], JBuffer []]) \<and>
   isCoseSign1 (JArray [JBuffer [], JTagged 98 (JNumber 0), JBuffer [], JBuffer []]) \<and>
   \<not> is_key_value_map (JTagged 98 (JNumber 0))"
proof -
  have "cbor_decode ref_libs [0x84, 0x40, 0xD8, 0x62, 0x00, 0x40, 0x40] =
     Inr (JArray [JBuffer [], JTagged 98 (JNumber 0), JBuffer [], JBuffer []])"
    by code_simp
  then show ?thesis by (simp add: isCoseSign1_elems coseArray_of_JArray)
qed

lemma isCoseSign1_shape:
  assumes "isCoseSign1 decoded"
  obtains p u pl s where "coseArray_of decoded = JArray [JBuffer p, u, pl, JBuffer s]"
    "pl = JNull \<or> (\<exists>b. pl = JBuffer b)" "is_object_value u"
proof -
  from assms obtain e0 e1 e2 e3 where c: "coseArray_of decoded = JArray [e0, e1, e2, e3]"
    by (auto simp: isCoseSign1_def split: jsval.splits list.splits)
  with assms have *: "isBytes e0" "is_object_value e1" "isBytes e2 \<or> e2 = JNull" "isBytes e3"
    by (simp_all add: isCoseSign1_elems)
  from * obtain p s where "e0 = JBuffer p" "e3 = JBuffer s"
    by (cases e0; cases e3) simp_all
  moreover from * have "e2 = JNull \<or> (\<exists>b. e2 = JBuffer b)" by (cases e2) simp_all
  ultimately show ?thesis using that c * by blast
qed

lemma looks_tagged_not_array: "looks_tagged decoded \<Longrightarrow> \<not> isArray decoded"
  by (cases decoded) (simp_all add: looks_tagged_def)

lemma not_array_not_cose: "\<not> isArray (coseArray_of decoded) \<Longrightarrow> \<not> isCoseSign1 decoded"
  by (cases "coseArray_of decoded") (simp_all add: isCoseSign1_def)

lemma tagged_coseArray:
  assumes "isCoseSign1 decoded" and "looks_tagged decoded"
  shows "coseArray_of decoded = get_prop decoded ''value''"
proof (rule ccontr)
  assume "coseArray_of decoded \<noteq> get_prop decoded ''value''"
  with assms(2) have "coseArray_of decoded = decoded"
    by (simp add: coseArray_of_def split: if_splits)
  with looks_tagged_not_array [OF assms(2)] have "\<not> isArray (coseArray_of decoded)" by simp
  with assms(1) show False using not_array_not_cose by blast
qed

lemma parse_elements_cose:
  assumes "pl = JNull \<or> (\<exists>b. pl = JBuffer b)"
  shows "parse_elements L tag (JArray [JBuffer p, u, pl, JBuffer s]) =
           Inr (cose_result tag (parse_protected L p) u (payload_view L pl) s)"
  using assms by (auto simp: parse_elements_def payload_view_def)

lemma parseCoseSign1_body_cose:
  assumes "isCoseSign1 decoded"
    and "coseArray_of decoded = JArray [JBuffer p, u, pl, JBuffer s]"
  shows "parseCoseSign1_body L decoded =
           Inr (cose_result (if looks_tagged decoded then get_prop decoded ''tag'' else JNull)
                  (parse_protected L p) u (payload_view L pl) s)"
proof -
  from assms have pl: "pl = JNull \<or> (\<exists>b. pl = JBuffer b)"
    by (cases pl) (simp_all add: isCoseSign1_elems)
  show ?thesis
  proof (cases "looks_tagged decoded")
    case True
    with tagged_coseArray [OF assms(1)] assms(2)
    have "get_prop decoded ''value'' = JArray [JBuffer p, u, pl, JBuffer s]" by simp
    with True parse_elements_cose [OF pl, of L "get_prop decoded ''tag''" p u s]
    show ?thesis by (simp add: parseCoseSign1_body_def)
  next
    case False
    with assms(2) have "decoded = JArray [JBuffer p, u, pl, JBuffer s]"
      by (simp add: coseArray_of_def)
    with False parse_elements_cose [OF pl, of L JNull p u s]
    show ?thesis by (simp add: parseCoseSign1_body_def)
  qed
qed

lemma parseCoseSign1_cose:
  assumes "isCoseSign1 decoded"
    and "coseArray_of decoded = JArray [JBuffer p, u, pl, JBuffer s]"
  shows "parseCoseSign1 L decoded =
           cose_result (if looks_tagged decoded then get_prop decoded ''tag'' else JNull)
             (parse_protected L p) u (payload_view L pl) s"
  using parseCoseSign1_body_cose [OF assms, of L] by (simp add: parseCoseSign1_def)

lemma signature_info_cose_result:
  "get_prop (cose_result tag ph u plv s) ''signature_info'' =
     JObject [(''length'', JNumber (int (length s))), (''preview'', Array_from (take 16 s))]"
  by (simp add: cose_result_def)

text \<open>
  C6. For every value that the decoder classifies as COSE Sign1, the entry
  \<^verbatim>\<open>signature_info\<close> of the parsed structure holds the length of the signature and, as
  preview, its first 16 bytes at most: the signature is neither decoded as CBOR nor read as
  text. A signature of 10000 bytes gives length 10000 and a preview of 16 bytes.
\<close>

theorem signature_info_length_and_preview:
  assumes "isCoseSign1 decoded"
  shows "\<exists>e0 e1 e2 signatureBytes.
           coseArray_of decoded = JArray [e0, e1, e2, JBuffer signatureBytes] \<and>
           get_prop (parseCoseSign1 L decoded) ''signature_info'' =
             JObject [(''length'', JNumber (int (length signatureBytes))),
                      (''preview'', JArray (map (\<lambda>b. JNumber (uint b)) (take 16 signatureBytes)))] \<and>
           length (take 16 signatureBytes) = min 16 (length signatureBytes)"
proof -
  from assms obtain p u pl s where c: "coseArray_of decoded = JArray [JBuffer p, u, pl, JBuffer s]"
    by (rule isCoseSign1_shape)
  from parseCoseSign1_cose [OF assms c, of L]
  have "get_prop (parseCoseSign1 L decoded) ''signature_info'' =
     JObject [(''length'', JNumber (int (length s))), (''preview'', Array_from (take 16 s))]"
    by (simp add: signature_info_cose_result)
  with c show ?thesis by (auto simp: Array_from_def)
qed

theorem signature_info_length_and_preview_witness:
  "isCoseSign1 (JTagged 18 (JArray [JBuffer [], JObject [], JNull, JBuffer (replicate 10000 0xAB)])) \<and>
   get_prop (parseCoseSign1 ref_libs
               (JTagged 18 (JArray [JBuffer [], JObject [], JNull, JBuffer (replicate 10000 0xAB)])))
      ''signature_info'' =
     JObject [(''length'', JNumber 10000),
              (''preview'', JArray (replicate 16 (JNumber 0xAB)))]"
proof -
  let ?v = "JTagged 18 (JArray [JBuffer [], JObject [], JNull, JBuffer (replicate 10000 0xAB)])"
  have h: "isCoseSign1 ?v" by (simp add: isCoseSign1_elems coseArray_of_JTagged)
  from signature_info_length_and_preview [OF h, of ref_libs] show ?thesis
    using h by (simp add: coseArray_of_JTagged)
qed

section \<open>Properties of the encoder\<close>

text \<open>
  C7. \<^verbatim>\<open>encodeCoseSign1\<close> returns a failure, with no data, for an input that is not
  valid JSON, for an input whose JSON value is not an object (\<^verbatim>\<open>null\<close>, a boolean, a
  number, a string), and for an object without the key \<^verbatim>\<open>payload\<close>, where the message
  names the missing \<^verbatim>\<open>payload\<close> field. An array is answered like an object without
  that key. The failures are results of the function: the exception of \<^verbatim>\<open>JSON.parse\<close>
  is caught.
\<close>

theorem encodeCoseSign1_validation:
  \<open>(JSON_parse L input = Inl e \<longrightarrow>
      encodeCoseSign1 L input =
        \<lparr>success = False, data = None,
         error' = Some ''COSE input must be valid JSON with structure: {"protected_headers": {...}, "unprotected_headers": {...}, "payload": {...}, "signature": "..."}''\<rparr>) \<and>
   (JSON_parse L input = Inr v \<and> (\<not> truthy v \<or> typeof v \<noteq> T_object) \<longrightarrow>
      encodeCoseSign1 L input =
        \<lparr>success = False, data = None, error' = Some ''COSE input must be a JSON object''\<rparr>) \<and>
   (JSON_parse L input = Inr (JObject kvs) \<and> ''payload'' \<notin> set (map fst kvs) \<longrightarrow>
      encodeCoseSign1 L input =
        \<lparr>success = False, data = None,
         error' = Some ''COSE input must contain a "payload" field''\<rparr>) \<and>
   (JSON_parse L input = Inr (JArray xs) \<longrightarrow>
      encodeCoseSign1 L input =
        \<lparr>success = False, data = None,
         error' = Some ''COSE input must contain a "payload" field''\<rparr>)\<close>
  by (simp add: encodeCoseSign1_def encoding_failure_def not_an_object_def)

theorem encodeCoseSign1_validation_witness:
  \<open>encodeCoseSign1 ref_libs ''{"foo": 1}'' =
     \<lparr>success = False, data = None, error' = Some ''COSE input must contain a "payload" field''\<rparr> \<and>
   encodeCoseSign1 ref_libs ''{"foo": 1'' =
     \<lparr>success = False, data = None,
      error' = Some ''COSE input must be valid JSON with structure: {"protected_headers": {...}, "unprotected_headers": {...}, "payload": {...}, "signature": "..."}''\<rparr> \<and>
   encodeCoseSign1 ref_libs ''"foo"'' =
     \<lparr>success = False, data = None, error' = Some ''COSE input must be a JSON object''\<rparr>\<close>
proof -
  have 1: \<open>JSON_parse ref_libs ''{"foo": 1}'' = Inr (JObject [(''foo'', JNumber 1)])\<close>
    by code_simp
  have 2: \<open>JSON_parse ref_libs ''{"foo": 1'' = Inl (Error ''Unexpected token in JSON'')\<close>
    by code_simp
  have 3: \<open>JSON_parse ref_libs ''"foo"'' = Inr (JString ''foo'')\<close>
    by code_simp
  from encodeCoseSign1_validation [of ref_libs _ _ _ "[(''foo'', JNumber 1)]"] 1
  have a: \<open>encodeCoseSign1 ref_libs ''{"foo": 1}'' =
     \<lparr>success = False, data = None, error' = Some ''COSE input must contain a "payload" field''\<rparr>\<close>
    by simp
  from encodeCoseSign1_validation [of ref_libs _ "Error ''Unexpected token in JSON''"] 2
  have b: \<open>encodeCoseSign1 ref_libs ''{"foo": 1'' =
     \<lparr>success = False, data = None,
      error' = Some ''COSE input must be valid JSON with structure: {"protected_headers": {...}, "unprotected_headers": {...}, "payload": {...}, "signature": "..."}''\<rparr>\<close>
    by blast
  from encodeCoseSign1_validation [of ref_libs _ _ "JString ''foo''"] 3
  have c: \<open>encodeCoseSign1 ref_libs ''"foo"'' =
     \<lparr>success = False, data = None, error' = Some ''COSE input must be a JSON object''\<rparr>\<close>
    by simp
  from a b c show ?thesis by blast
qed



lemma cbor_enc_string_total: "\<exists>bs. cbor_enc_string s = Some bs"
  by (simp add: cbor_enc_string_def)




















section \<open>The signature of the encoder\<close>

lemma resolve_signature_base64_first:
  "truthy signature \<Longrightarrow> Base64_toUint8Array L signature = Inr bytes \<Longrightarrow>
   resolve_signature L signature = Some bytes"
  by (simp add: resolve_signature_def)

lemma resolve_signature_hex_second:
  "truthy signature \<Longrightarrow> Base64_toUint8Array L signature = Inl e \<Longrightarrow>
   resolve_signature L signature = hex_signature signature"
  by (simp add: resolve_signature_def)

lemma resolve_signature_absent:
  "\<not> truthy signature \<Longrightarrow> resolve_signature L signature = Some []"
  by (simp add: resolve_signature_def)

text \<open>
  C5. The signature \<^verbatim>\<open>"41424344"\<close> read as hexadecimal is the four bytes 41 42 43 44, the
  bytes of the base64 signature \<^verbatim>\<open>"QUJDRA=="\<close>. \<^verbatim>\<open>encodeCoseSign1\<close> tries base64 first,
  and every character of \<^verbatim>\<open>"41424344"\<close> is a base64 character: the signature becomes
  the six bytes E3 5E 36 E3 7E 38 and the two inputs are encoded differently. The
  signature \<^verbatim>\<open>AABBCCDDEEFF\<close> of \<^verbatim>\<open>formatCoseTemplate\<close>, "in hex" by its comment, is read
  as base64 in the same way.
\<close>

theorem hex_signature_read_as_base64:
  \<open>hex_signature (JString ''41424344'') = Some [0x41, 0x42, 0x43, 0x44] \<and>
   resolve_signature ref_libs (JString ''QUJDRA=='') = Some [0x41, 0x42, 0x43, 0x44] \<and>
   resolve_signature ref_libs (JString ''41424344'') = Some [0xE3, 0x5E, 0x36, 0xE3, 0x7E, 0x38] \<and>
   cose_value ref_libs (JObject [(''payload'', JNumber 1), (''signature'', JString ''41424344'')]) =
     Inr (Some (taggedCose [0xA0] (JObject []) [0x01] [0xE3, 0x5E, 0x36, 0xE3, 0x7E, 0x38])) \<and>
   encodeCoseSign1 ref_libs ''{"payload": 1, "signature": "41424344"}'' =
     \<lparr>success = True, data = Some ''0oRBoKBBAUbjXjbjfjg='', error' = None\<rparr> \<and>
   encodeCoseSign1 ref_libs ''{"payload": 1, "signature": "QUJDRA=="}'' =
     \<lparr>success = True, data = Some ''0oRBoKBBAURBQkNE'', error' = None\<rparr> \<and>
   hex_signature (JString ''AABBCCDDEEFF'') = Some [0xAA, 0xBB, 0xCC, 0xDD, 0xEE, 0xFF] \<and>
   resolve_signature ref_libs (JString ''AABBCCDDEEFF'') =
     Some [0x00, 0x00, 0x41, 0x08, 0x20, 0xC3, 0x10, 0x41, 0x45]\<close>
  by code_simp

section \<open>Encoding, then decoding\<close>









section \<open>Properties of the per-topic cache\<close>

lemma get_decoder_cached:
  "cached (viewModel s) = Some b \<Longrightarrow> get_decoder ds s = (Some b, s)"
  by (simp add: get_decoder_def)

lemma get_decoder_resolved:
  assumes "fst (get_decoder ds s) = Some b"
  shows "cached (viewModel (snd (get_decoder ds s))) = Some b"
  using assms
  by (auto simp: get_decoder_def split: option.splits if_splits)

lemma set_decoder_cached: "cached (viewModel (set_decoder override s)) = override"
  by (simp add: set_decoder_def)

lemma step_keeps_cached:
  assumes "cached (viewModel s) = Some b" and "\<not> is_override e"
  shows "cached (viewModel (step ds s e)) = Some b"
proof (cases e)
  case (MessageArrives payload)
  with assms show ?thesis by (simp add: message_arrives_def)
next
  case ReadDecoder
  with assms show ?thesis by (simp add: get_decoder_cached)
next
  case (Override override)
  with assms show ?thesis by simp
next
  case Retain
  with assms show ?thesis by (simp add: retain_def)
next
  case Release
  with assms show ?thesis by (simp add: release_def destroy_def Let_def)
next
  case Destroy
  with assms show ?thesis by (simp add: destroy_def)
next
  case (SetSelected sel)
  with assms show ?thesis by (simp add: setSelected_def)
next
  case (SetExpanded ex fireEvent)
  with assms show ?thesis by (simp add: setExpanded_def)
qed

lemma run_keeps_cached:
  assumes "cached (viewModel s) = Some b" and "list_all (\<lambda>e. \<not> is_override e) es"
  shows "cached (viewModel (run ds es s)) = Some b"
  using assms
proof (induction es arbitrary: s)
  case Nil
  then show ?case by (simp add: run_def)
next
  case (Cons e es)
  from Cons.prems have "cached (viewModel (step ds s e)) = Some b"
    by (simp add: step_keeps_cached)
  with Cons.IH [of "step ds s e"] Cons.prems show ?case
    by (simp add: run_def)
qed

text \<open>
  C9. Once the binding of a view model is resolved, by a read of the property \<^verbatim>\<open>decoder\<close>
  that found a decoder or by an override, every later read returns that binding, whatever
  messages arrive on the topic in between: only another override changes it. Retaining,
  releasing, destroying, selecting and expanding the view model leave it as well.
\<close>

theorem resolved_binding_is_kept:
  assumes "(fst (get_decoder ds s0) = Some b \<and> s = snd (get_decoder ds s0)) \<or>
           s = set_decoder (Some b) s0"
    and "list_all (\<lambda>e. \<not> is_override e) es"
  shows "fst (get_decoder ds (run ds es s)) = Some b \<and>
         cached (viewModel (run ds es s)) = Some b"
proof -
  from assms(1) have "cached (viewModel s) = Some b"
    by (auto simp: get_decoder_resolved set_decoder_cached)
  from this assms(2) have "cached (viewModel (run ds es s)) = Some b"
    by (rule run_keeps_cached)
  then show ?thesis by (simp add: get_decoder_cached)
qed

lemma lazy_resolution_example:
  "fst (get_decoder example_decoders (constructor example_node2)) = Some (binding (CborDecoder ref_libs))"
proof -
  have t: "\<not> topic_matches example_node2 example_SparkplugDecoder"
    by (simp add: topic_matches_def example_node2_def example_SparkplugDecoder_def)
  have d: "\<not> data_matches example_node2 example_SparkplugDecoder"
      "data_matches example_node2 (CborDecoder ref_libs)"
    using canDecodeData_one
    by (simp_all add: data_matches_def example_node2_def example_SparkplugDecoder_def CborDecoder_def)
  have "findDecoder example_decoders example_node2 = Some (binding (CborDecoder ref_libs))"
    using t d by (simp add: example_decoders_def decoders_def findDecoder_def decoder_matches_def)
  then show ?thesis by (simp add: get_decoder_def constructor_def)
qed

theorem resolved_binding_is_kept_witness:
  "fst (get_decoder example_decoders (constructor example_node2)) = Some (binding (CborDecoder ref_libs)) \<and>
   fst (get_decoder example_decoders
          (run example_decoders
             [MessageArrives (Base64Message [0xFF]), ReadDecoder, Retain,
              MessageArrives (Base64Message []), ReadDecoder]
             (snd (get_decoder example_decoders (constructor example_node2))))) =
     Some (binding (CborDecoder ref_libs))"
proof -
  note h = lazy_resolution_example
  from resolved_binding_is_kept [of example_decoders "constructor example_node2"
      "binding (CborDecoder ref_libs)" "snd (get_decoder example_decoders (constructor example_node2))"
      "[MessageArrives (Base64Message [0xFF]), ReadDecoder, Retain,
        MessageArrives (Base64Message []), ReadDecoder]"] h
  show ?thesis by simp
qed

section \<open>Sniffing and decoding\<close>

text \<open>
  The test of the major type in \<^verbatim>\<open>canDecodeData\<close> lets every first byte pass: the
  predicate says that the buffer is not empty and that the library decodes it.
\<close>

lemma majorType_in_range:
  "\<not> ((drop_bit 5 (b :: byte)) AND 0x07 < 0 \<or> (drop_bit 5 b) AND 0x07 > 7)"
  by (simp add: word_and_le1 not_less)

lemma canDecodeData_iff:
  "CborDecoder_canDecodeData L p =
     (toBuffer p \<noteq> [] \<and> (\<exists>decoded. cbor_decode L (toBuffer p) = Inr decoded))"
  using majorType_in_range [of "hd (toBuffer p)"]
  by (auto simp: CborDecoder_canDecodeData_def Let_def split: sum.splits)

lemma canDecodeData_decodes:
  assumes "CborDecoder_canDecodeData L p"
  shows "toBuffer p \<noteq> [] \<and> (\<exists>decoded. cbor_decode L (toBuffer p) = Inr decoded)"
  using assms
  by (auto simp: CborDecoder_canDecodeData_def Let_def split: if_splits sum.splits)

text \<open>
  C10, as amended. When \<^verbatim>\<open>canDecodeData\<close> is true for a payload, the CBOR decoding step
  of \<^verbatim>\<open>decode\<close> succeeds on it, and \<^verbatim>\<open>decode\<close> returns the success envelope with decoder
  CBOR and no error whenever the serialisation of the decoded tree (\<^verbatim>\<open>JSON.stringify\<close>
  and \<^verbatim>\<open>Base64Message.fromString\<close>) does not throw, the error envelope otherwise.
  \<^verbatim>\<open>canDecodeData\<close> is false for the empty buffer.
\<close>

theorem canDecodeData_then_decode:
  "(CborDecoder_canDecodeData L p \<longrightarrow>
      (\<exists>v. decode_tree L p = Inr v \<and>
           (\<forall>m. render L v = Inr m \<longrightarrow>
                CborDecoder_decode L p format = \<lparr>message = Some m, error = None, decoder = CBOR\<rparr>) \<and>
           (\<forall>e. render L v = Inl e \<longrightarrow>
                CborDecoder_decode L p format =
                  \<lparr>message = None, error = Some (''Failed to decode CBOR: '' @ error_message e),
                   decoder = NONE\<rparr>))) \<and>
   \<not> CborDecoder_canDecodeData L (Base64Message [])"
proof -
  have "\<not> CborDecoder_canDecodeData L (Base64Message [])"
    by (simp add: CborDecoder_canDecodeData_def)
  moreover have "\<exists>v. decode_tree L p = Inr v \<and>
           (\<forall>m. render L v = Inr m \<longrightarrow>
                CborDecoder_decode L p format = \<lparr>message = Some m, error = None, decoder = CBOR\<rparr>) \<and>
           (\<forall>e. render L v = Inl e \<longrightarrow>
                CborDecoder_decode L p format =
                  \<lparr>message = None, error = Some (''Failed to decode CBOR: '' @ error_message e),
                   decoder = NONE\<rparr>)"
    if "CborDecoder_canDecodeData L p"
  proof -
    from canDecodeData_decodes [OF that] obtain decoded
      where "cbor_decode L (toBuffer p) = Inr decoded" by blast
    then have "decode_tree L p = Inr (if isCoseSign1 decoded then parseCoseSign1 L decoded else decoded)"
      by (simp add: decode_tree_def)
    then show ?thesis by (simp add: CborDecoder_decode_def)
  qed
  ultimately show ?thesis by blast
qed

theorem canDecodeData_then_decode_witness:
  "CborDecoder_canDecodeData ref_libs (Base64Message [0x01]) \<and>
   decode_tree ref_libs (Base64Message [0x01]) = Inr (JNumber 1) \<and>
   render ref_libs (JNumber 1) = Inr (Base64Message [0x31]) \<and>
   CborDecoder_decode ref_libs (Base64Message [0x01]) None =
     \<lparr>message = Some (Base64Message [0x31]), error = None, decoder = CBOR\<rparr>"
proof -
  have c: "CborDecoder_canDecodeData ref_libs (Base64Message [0x01])"
    by code_simp
  have t: "decode_tree ref_libs (Base64Message [0x01]) = Inr (JNumber 1)"
    by code_simp
  have r: "render ref_libs (JNumber 1) = Inr (Base64Message [0x31])"
    by code_simp
  from canDecodeData_then_decode [of ref_libs "Base64Message [0x01]" None] c t r
  show ?thesis by auto
qed

text \<open>
  C10 as stated fails: the buffers F7 (the CBOR item \<^verbatim>\<open>undefined\<close>) and
  1B 00 20 00 00 00 00 00 00 (the integer \<open>2\<^sup>5\<^sup>3\<close>, a \<^verbatim>\<open>BigInt\<close>) are valid CBOR, so
  \<^verbatim>\<open>canDecodeData\<close> is true, and \<^verbatim>\<open>decode\<close> returns an error envelope for both:
  \<^verbatim>\<open>JSON.stringify\<close> gives \<^verbatim>\<open>undefined\<close> for the first, which is not a string to wrap,
  and throws on the second.
\<close>

theorem canDecodeData_counterexample:
  "CborDecoder_canDecodeData ref_libs (Base64Message [0xF7]) \<and>
   CborDecoder_decode ref_libs (Base64Message [0xF7]) None =
     \<lparr>message = None,
      error = Some ''Failed to decode CBOR: The first argument must be of type string. Received undefined'',
      decoder = NONE\<rparr> \<and>
   CborDecoder_canDecodeData ref_libs (Base64Message [0x1B, 0x00, 0x20, 0, 0, 0, 0, 0, 0]) \<and>
   CborDecoder_decode ref_libs (Base64Message [0x1B, 0x00, 0x20, 0, 0, 0, 0, 0, 0]) None =
     \<lparr>message = None,
      error = Some ''Failed to decode CBOR: Do not know how to serialize a BigInt'',
      decoder = NONE\<rparr>"
  by code_simp

end
